theory Spec2Isabelle
  imports Complex_Main "HOL-Library.AList"
begin

section \<open>Values, errors and dictionaries\<close>

text \<open>
  A Python float is either NaN or a number. Finite numbers are idealised as reals:
  rounding and the infinities are outside this model. \<open>np.nan\<close> is the one NaN.
\<close>

datatype fl = NaN | Fl real

text \<open>
  What a score dictionary holds under a key: a float, a string (as under
  \<open>score_name\<close>) or \<open>None\<close>.
\<close>

datatype sval = Num fl | Str string | NoneV

type_synonym scores = "(string \<times> sval) list"

text \<open>
  An instance is a dictionary; each of its keys may be absent. The \<open>global\<close> entry of a
  score is a reference to a dictionary in the store (section on references below), the
  \<open>instance\<close> entry is the instance's own score dictionary.
\<close>

record score_cell =
  global_ref :: "nat option"
  instance_scores :: scores

record 'v inst =
  references :: "'v list option"
  prediction :: "'v option"
  task_data :: "(string \<times> string) list option"
  score :: "score_cell option"

text \<open>
  The exceptions of the modelled code. The messages that interpolate an instance carry
  it, together with the text interpolated as the subfield's name.
\<close>

datatype 'v error =
    KeyError string
  | TypeError
  | StatisticsError
  | ZeroDivisionError
  | AssertionError string
  | AttributeError
  | IndexError
  | UnboundLocalError string
  | ValueError string
  | ValueError_grouping "'v inst" string
  | ValueError_subgroup_filtering "'v inst" string
  | ValueError_control_comparison "'v inst" string
  | ComputeError string

definition ebind :: "'e + 'a \<Rightarrow> ('a \<Rightarrow> 'e + 'b) \<Rightarrow> 'e + 'b" where
  "ebind x f = (case x of Inl e \<Rightarrow> Inl e | Inr a \<Rightarrow> f a)"

fun emap :: "('a \<Rightarrow> 'e + 'b) \<Rightarrow> 'a list \<Rightarrow> 'e + 'b list" where
  "emap f [] = Inr []"
| "emap f (x # xs) =
     (case f x of
        Inl e \<Rightarrow> Inl e
      | Inr y \<Rightarrow> (case emap f xs of Inl e \<Rightarrow> Inl e | Inr ys \<Rightarrow> Inr (y # ys)))"

text \<open>\<open>d.update(other)\<close>: a present key keeps its place, a new key goes last.\<close>

definition dict_update :: "('k \<times> 'a) list \<Rightarrow> ('k \<times> 'a) list \<Rightarrow> ('k \<times> 'a) list" where
  "dict_update d other = fold (\<lambda>(k, v). AList.update k v) other d"

section \<open>Means\<close>

fun isnan :: "fl \<Rightarrow> bool" where
  "isnan NaN = True"
| "isnan (Fl r) = False"

fun as_float :: "sval \<Rightarrow> fl option" where
  "as_float (Num f) = Some f"
| "as_float (Str s) = None"
| "as_float NoneV = None"

text \<open>
  \<open>np.nanmean\<close> on a one-dimensional float array, as numpy computes it: the NaN entries
  are replaced by 0 and masked, the total of the replaced array is divided by the number
  of unmasked entries; with no unmasked entry the quotient is 0/0, that is NaN (the
  RuntimeWarning is what \<open>nan_mean\<close> silences).
\<close>

fun replace_nan :: "fl \<Rightarrow> real" where
  "replace_nan NaN = 0"
| "replace_nan (Fl r) = r"

definition np_nanmean :: "fl list \<Rightarrow> fl" where
  "np_nanmean arr =
     (let cnt = length (filter (\<lambda>v. \<not> isnan v) arr);
          tot = sum_list (map replace_nan arr)
      in if cnt = 0 then NaN else Fl (tot / real cnt))"

text \<open>\<open>nan_mean(x)\<close>; an entry that is not a number makes numpy raise a TypeError.\<close>

definition nan_mean :: "sval list \<Rightarrow> 'v error + fl" where
  "nan_mean x =
     (case those (map as_float x) of
        None \<Rightarrow> Inl TypeError
      | Some arr \<Rightarrow> Inr (np_nanmean arr))"

text \<open>
  \<open>statistics.mean\<close> on floats: no data point raises StatisticsError; a NaN among the
  data makes the total, and so the mean, NaN; otherwise the exact sum over the count.
\<close>

definition mean :: "fl list \<Rightarrow> 'v error + fl" where
  "mean data =
     (if data = [] then Inl StatisticsError
      else if list_ex isnan data then Inr NaN
      else Inr (Fl (sum_list (map replace_nan data) / real (length data))))"

section \<open>performance\_drop\_rate\<close>

fun fl_div :: "fl \<Rightarrow> fl \<Rightarrow> 'v error + fl" where
  "fl_div (Fl a) (Fl b) = (if b = 0 then Inl ZeroDivisionError else Inr (Fl (a / b)))"
| "fl_div NaN (Fl b) = (if b = 0 then Inl ZeroDivisionError else Inr NaN)"
| "fl_div a NaN = Inr NaN"

fun fl_minus :: "fl \<Rightarrow> fl \<Rightarrow> fl" where
  "fl_minus (Fl a) (Fl b) = Fl (a - b)"
| "fl_minus NaN b = NaN"
| "fl_minus a NaN = NaN"

definition performance_drop_rate :: "fl list \<Rightarrow> fl list \<Rightarrow> 'v error + fl" where
  "performance_drop_rate control_subgroup comparison_subgroup =
     (let no_nan_control_subgroup = filter (\<lambda>score. \<not> isnan score) control_subgroup;
          no_nan_comparison_subgroup = filter (\<lambda>score. \<not> isnan score) comparison_subgroup;
          group_scores_list = [no_nan_control_subgroup, no_nan_comparison_subgroup]
      in if list_ex (\<lambda>scores. length scores = 0) group_scores_list then Inr NaN
         else
           ebind (mean (group_scores_list ! 0)) (\<lambda>control_mean.
           ebind (mean (group_scores_list ! 1)) (\<lambda>comparison_mean.
             if control_mean = Fl 0 then
               (if comparison_mean = Fl 0 then Inr (Fl 0) else Inr NaN)
             else
               ebind (fl_div comparison_mean control_mean) (\<lambda>q.
                 Inr (fl_minus (Fl 1) q)))))"

section \<open>Scores of instances\<close>

text \<open>\<open>instance["score"]["instance"][score_name]\<close>\<close>

definition get_instance_score :: "'v inst \<Rightarrow> string \<Rightarrow> 'v error + sval" where
  "get_instance_score i score_name =
     (case score i of
        None \<Rightarrow> Inl (KeyError ''score'')
      | Some c \<Rightarrow>
          (case map_of (instance_scores c) score_name of
             None \<Rightarrow> Inl (KeyError score_name)
           | Some v \<Rightarrow> Inr v))"

definition average_item_scores :: "'v inst list \<Rightarrow> string \<Rightarrow> 'v error + fl" where
  "average_item_scores instances score_name =
     ebind (emap (\<lambda>i. get_instance_score i score_name) instances) nan_mean"

section \<open>Arithmetic means, as the specification words them\<close>

definition finite_vals :: "fl list \<Rightarrow> real list" where
  "finite_vals xs = map replace_nan (filter (\<lambda>v. v \<noteq> NaN) xs)"

definition arith_mean :: "real list \<Rightarrow> real" where
  "arith_mean rs = sum_list rs / real (length rs)"

text \<open>The floats an instance list carries under a score name (NaN for anything else).\<close>

definition carried :: "'v inst list \<Rightarrow> string \<Rightarrow> fl list" where
  "carried instances score_name =
     map (\<lambda>i. case score i of
                 None \<Rightarrow> NaN
               | Some c \<Rightarrow> (case map_of (instance_scores c) score_name of
                              Some (Num f) \<Rightarrow> f
                            | _ \<Rightarrow> NaN)) instances"

definition carries_float :: "'v inst \<Rightarrow> string \<Rightarrow> bool" where
  "carries_float i score_name =
     (case score i of
        None \<Rightarrow> False
      | Some c \<Rightarrow> (case map_of (instance_scores c) score_name of
                     Some (Num f) \<Rightarrow> True
                   | _ \<Rightarrow> False))"

section \<open>Metric configuration\<close>

text \<open>
  Which of the three metric classes an object is (what \<open>isinstance(self, ...)\<close> tests),
  or another extension of MetricWithConfidenceInterval.
\<close>

datatype kind = InstanceMetric | GlobalMetric | BulkInstanceMetric | OtherMetric

record grouping_cfg =
  group_by_field :: string
  ci_samples_from_groups_scores :: bool

record subgroup_filtering_cfg =
  subgroup_column :: string
  subgroup_types :: "string list"

record 'v control_comparison_cfg =
  cc_subgroup_column :: string
  control_subgroup_types :: "string list"
  comparison_subgroup_types :: "string list"
  control_comparison_score_calculator :: "sval list \<Rightarrow> sval list \<Rightarrow> 'v error + fl"

record 'v aggregating_cfg =
  aggregating_function_name :: string
  aggregating_function :: "'v inst list \<Rightarrow> string \<Rightarrow> 'v error + fl"

text \<open>The global score of a group, or of a stream: a float or a dictionary.\<close>

datatype gscore = GFloat fl | GDict scores

type_synonym tdata = "(string \<times> string) list"

text \<open>
  The attributes of a metric object. The abstract methods (\<open>compute\<close> of each class) and
  the library routines the code calls are fields too:
  \<^item> \<open>has_prediction_type x\<close> is \<open>isoftype(x, self.get_prediction_type())\<close>;
  \<^item> \<open>bootstrap data statistic n_resamples confidence_level\<close> is
    \<open>scipy.stats.bootstrap(...).confidence_interval\<close> with the random generator it is
    given; \<open>statistic\<close> is what the code computes on one resample, before
    \<open>resample_from_non_nan\<close> redraws the NaN entries;
  \<^item> \<open>from_task_data\<close> reads a side-data value as a prediction or reference.
  An aggregating function and a score calculator return a float, as the comments on
  \<open>aggregating\<close> and \<open>control_comparison\<close> say.
\<close>

record 'v metric =
  kind :: kind
  main_score :: string
  single_reference_per_prediction :: bool
  has_prediction_type :: "'v \<Rightarrow> bool"
  n_resamples :: "int option"
  confidence_level :: real
  ci_scores :: "string list option"
  grouping :: "grouping_cfg option"
  subgroup_filtering :: "subgroup_filtering_cfg option"
  control_comparison :: "'v control_comparison_cfg option"
  bootstrap :: "'v inst list \<Rightarrow> ('v inst list \<Rightarrow> 'v error + gscore) \<Rightarrow> int \<Rightarrow> real
                 \<Rightarrow> 'v error + fl \<times> fl"
  process_single_instances :: bool
  compute :: "'v list list \<Rightarrow> 'v list \<Rightarrow> tdata list \<Rightarrow> 'v error + scores"
  reduction_map :: "(string \<times> string list) list"
  implemented_reductions :: "string list"
  compute_bulk :: "'v list list \<Rightarrow> 'v list \<Rightarrow> tdata list \<Rightarrow> 'v error + scores list"
  score_names :: "string list option"
  to_score_names :: "string list option"
  aggregating :: "'v aggregating_cfg option"
  prefix :: string
  reference_field :: string
  prediction_field :: string
  from_task_data :: "string \<Rightarrow> 'v"
  compute_instance :: "'v list \<Rightarrow> 'v \<Rightarrow> tdata \<Rightarrow> 'v error + scores"

section \<open>Validation and the stream\<close>

definition validate_prediction :: "'v metric \<Rightarrow> 'v \<Rightarrow> 'v error + unit" where
  "validate_prediction m p =
     (if \<not> has_prediction_type m p then Inl (ValueError ''Each prediction is expected to be of type'')
      else Inr ())"

definition validate_reference :: "'v metric \<Rightarrow> 'v list \<Rightarrow> 'v error + unit" where
  "validate_reference m reference =
     (if single_reference_per_prediction m \<and> \<not> length reference = 1
      then Inl (ValueError ''Expecting a list with a single reference per prediction'')
      else if list_ex (\<lambda>ref. \<not> has_prediction_type m ref) reference
      then Inl (ValueError ''Each reference is expected to be of type'')
      else Inr ())"

definition validate_references_and_prediction ::
  "'v metric \<Rightarrow> 'v list list \<Rightarrow> 'v list \<Rightarrow> 'v error + unit" where
  "validate_references_and_prediction m refs predictions =
     (if length refs \<noteq> length predictions
      then Inl (ValueError ''references size does not match predictions size'')
      else ebind (emap (validate_reference m) refs) (\<lambda>_.
           ebind (emap (validate_prediction m) predictions) (\<lambda>_. Inr ())))"

text \<open>\<open>consume_stream(stream, task_data_field_name="task_data")\<close>\<close>

fun consume_stream ::
  "'v inst list \<Rightarrow> 'v error + ('v list \<times> 'v list list \<times> tdata list \<times> 'v inst list)" where
  "consume_stream [] = Inr ([], [], [], [])"
| "consume_stream (i # stream) =
     (case references i of
        None \<Rightarrow> Inl (KeyError ''references'')
      | Some r \<Rightarrow>
          (case prediction i of
             None \<Rightarrow> Inl (KeyError ''prediction'')
           | Some p \<Rightarrow>
               ebind (consume_stream stream) (\<lambda>(ps, rs, ts, is).
                 Inr (p # ps, r # rs,
                      (case task_data i of None \<Rightarrow> [] | Some t \<Rightarrow> t) # ts, i # is))))"

text \<open>The method \<open>_compute\<close> of GlobalMetric.\<close>

definition compute_main ::
  "'v metric \<Rightarrow> 'v list list \<Rightarrow> 'v list \<Rightarrow> tdata list \<Rightarrow> 'v error + scores" where
  "compute_main m refs predictions tds =
     ebind (compute m refs predictions tds) (\<lambda>result.
       case map_of result (main_score m) of
         None \<Rightarrow> Inl (KeyError (main_score m))
       | Some v \<Rightarrow>
           Inr (AList.update ''score_name'' (Str (main_score m))
                  (AList.update ''score'' v result)))"

section \<open>Key-path lookup\<close>

fun split_path :: "string \<Rightarrow> string list" where
  "split_path [] = [[]]"
| "split_path (c # cs) =
     (if c = CHR ''/'' then [] # split_path cs
      else (case split_path cs of
              [] \<Rightarrow> [[c]]
            | w # ws \<Rightarrow> (c # w) # ws))"

text \<open>
  Modelled from the spec: \<open>dict_get\<close> of dict\_utils.py, which is not among the sources.
  The specification gives an instance a \<open>task_data\<close> mapping of side-channel fields,
  reached by a key path with nested access such as \<open>task_data/group_id\<close>. The lookup
  here resolves exactly the paths \<open>task_data/<key>\<close> whose key is present, and raises
  on every other path; side-data values are strings.
\<close>

definition dict_get :: "'v inst \<Rightarrow> string \<Rightarrow> 'v error + string" where
  "dict_get i path =
     (case split_path path of
        [base, key] \<Rightarrow>
          (if base = ''task_data'' then
             (case task_data i of
                None \<Rightarrow> Inl (ValueError path)
              | Some td \<Rightarrow>
                  (case map_of td key of
                     None \<Rightarrow> Inl (ValueError path)
                   | Some v \<Rightarrow> Inr v))
           else Inl (ValueError path))
      | _ \<Rightarrow> Inl (ValueError path))"

section \<open>score\_groups\_globally\<close>

text \<open>
  A group is a list of instances, or, once control and comparison are configured, the
  dictionary of its control and its comparison instances.
\<close>

datatype 'v group = Plain "'v inst list" | Split "'v inst list" "'v inst list"

text \<open>\<open>grouped_instances[group_name].append(instance)\<close> on a \<open>defaultdict(list)\<close>\<close>

fun append_to_group ::
  "(string \<times> 'v inst list) list \<Rightarrow> string \<Rightarrow> 'v inst \<Rightarrow> (string \<times> 'v inst list) list" where
  "append_to_group [] g i = [(g, [i])]"
| "append_to_group ((k, is) # rest) g i =
     (if k = g then (k, is @ [i]) # rest else (k, is) # append_to_group rest g i)"

text \<open>
  The grouping loop. Its third argument is the local variable \<open>group_name\<close>: unbound
  (\<open>None\<close>) until a lookup has succeeded, and read by the message of the ValueError.
\<close>

fun group_by ::
  "string \<Rightarrow> 'v inst list \<Rightarrow> string option \<Rightarrow> (string \<times> 'v inst list) list
   \<Rightarrow> 'v error + (string \<times> 'v inst list) list" where
  "group_by field [] group_name grouped_instances = Inr grouped_instances"
| "group_by field (i # rest) group_name grouped_instances =
     (case dict_get i field of
        Inl e \<Rightarrow>
          (case group_name of
             None \<Rightarrow> Inl (UnboundLocalError ''group_name'')
           | Some previous \<Rightarrow> Inl (ValueError_grouping i previous))
      | Inr g \<Rightarrow> group_by field rest (Some g) (append_to_group grouped_instances g i))"

fun filter_group :: "subgroup_filtering_cfg \<Rightarrow> 'v inst list \<Rightarrow> 'v error + 'v inst list" where
  "filter_group cfg [] = Inr []"
| "filter_group cfg (i # rest) =
     (case dict_get i (subgroup_column cfg) of
        Inl e \<Rightarrow> Inl (ValueError_subgroup_filtering i (subgroup_column cfg))
      | Inr subgroup_type \<Rightarrow>
          ebind (filter_group cfg rest) (\<lambda>filtered_group.
            Inr (if subgroup_type \<in> set (subgroup_types cfg)
                 then i # filtered_group else filtered_group)))"

fun split_group ::
  "'v control_comparison_cfg \<Rightarrow> 'v inst list \<Rightarrow> 'v error + ('v inst list \<times> 'v inst list)" where
  "split_group cc [] = Inr ([], [])"
| "split_group cc (i # rest) =
     (case dict_get i (cc_subgroup_column cc) of
        Inl e \<Rightarrow> Inl (ValueError_control_comparison i (cc_subgroup_column cc))
      | Inr subgroup_type \<Rightarrow>
          ebind (split_group cc rest) (\<lambda>(control_group, comparison_group).
            Inr (if subgroup_type \<in> set (control_subgroup_types cc)
                 then (i # control_group, comparison_group)
                 else if subgroup_type \<in> set (comparison_subgroup_types cc)
                 then (control_group, i # comparison_group)
                 else (control_group, comparison_group))))"

text \<open>The score of one group of an InstanceMetric for one score name.\<close>

definition score_group_by_name :: "'v metric \<Rightarrow> 'v group \<Rightarrow> string \<Rightarrow> 'v error + fl" where
  "score_group_by_name m grp score_name =
     (case grp of
        Plain g \<Rightarrow>
          (case aggregating m of
             None \<Rightarrow> Inl TypeError
           | Some a \<Rightarrow> aggregating_function a g score_name)
      | Split control comparison \<Rightarrow>
          ebind (emap (\<lambda>i. get_instance_score i score_name) control) (\<lambda>control_scores.
          ebind (emap (\<lambda>i. get_instance_score i score_name) comparison) (\<lambda>comparison_scores.
            case control_comparison m of
              None \<Rightarrow> Inl TypeError
            | Some cc \<Rightarrow>
                control_comparison_score_calculator cc control_scores comparison_scores)))"

fun score_group_names ::
  "'v metric \<Rightarrow> 'v group \<Rightarrow> string list \<Rightarrow> scores \<Rightarrow> 'v error + scores" where
  "score_group_names m grp [] d = Inr d"
| "score_group_names m grp (score_name # rest) d =
     ebind (score_group_by_name m grp score_name) (\<lambda>v.
       score_group_names m grp rest (AList.update score_name (Num v) d))"

fun score_groups ::
  "'v metric \<Rightarrow> string list option \<Rightarrow> (string \<times> 'v group) list \<Rightarrow> (string \<times> gscore) list
   \<Rightarrow> 'v error + (string \<times> gscore) list" where
  "score_groups m names [] groups_global_scores = Inr groups_global_scores"
| "score_groups m names ((group_name, grp) # rest) groups_global_scores =
     (case kind m of
        InstanceMetric \<Rightarrow>
          (case names of
             None \<Rightarrow> Inl TypeError
           | Some ns \<Rightarrow>
               ebind (score_group_names m grp ns []) (\<lambda>d.
                 score_groups m names rest
                   (AList.update group_name (GDict d) groups_global_scores)))
      | GlobalMetric \<Rightarrow>
          (case grp of
             Plain g \<Rightarrow>
               if length g = 0 then
                 score_groups m names rest
                   (AList.update group_name (GFloat NaN) groups_global_scores)
               else
                 ebind (consume_stream g) (\<lambda>(predictions, refs, tds, g').
                 ebind (validate_references_and_prediction m refs predictions) (\<lambda>_.
                 ebind (compute_main m refs predictions tds) (\<lambda>d.
                   score_groups m names rest
                     (AList.update group_name (GDict d) groups_global_scores))))
           | Split control comparison \<Rightarrow> score_groups m names rest groups_global_scores)
      | BulkInstanceMetric \<Rightarrow>
          Inl (ValueError ''What are you doing here? nowhere in BulkInstanceMetric is this method invoked'')
      | OtherMetric \<Rightarrow> Inl (ValueError ''Unrecognized extension of MetricWithConfidence''))"

definition score_groups_globally ::
  "'v metric \<Rightarrow> 'v inst list \<Rightarrow> string list option \<Rightarrow> 'v error + (string \<times> gscore) list" where
  "score_groups_globally m instances names =
     ebind (case grouping m of
              None \<Rightarrow> Inr [(''all'', instances)]
            | Some g \<Rightarrow> group_by (group_by_field g) instances None []) (\<lambda>grouped_instances.
     ebind (case subgroup_filtering m of
              None \<Rightarrow> Inr grouped_instances
            | Some cfg \<Rightarrow>
                emap (\<lambda>(group_name, g).
                        ebind (filter_group cfg g) (\<lambda>filtered_group.
                          Inr (group_name, filtered_group)))
                  grouped_instances) (\<lambda>filtered_instances.
     ebind (case control_comparison m of
              None \<Rightarrow> Inr (map (\<lambda>(group_name, g). (group_name, Plain g)) filtered_instances)
            | Some cc \<Rightarrow>
                emap (\<lambda>(group_name, g).
                        ebind (split_group cc g) (\<lambda>(control_group, comparison_group).
                          Inr (group_name, Split control_group comparison_group)))
                  filtered_instances) (\<lambda>groups.
       score_groups m names groups [])))"

section \<open>average\_groups\_global\_scores\<close>

text \<open>
  The field-by-field merge of several groups' dictionaries: under each key, the string
  written last or the list of the values appended.
\<close>

datatype merged = MStr string | MList "sval list"

fun merge_item :: "string \<times> sval \<Rightarrow> (string \<times> merged) list \<Rightarrow> 'v error + (string \<times> merged) list" where
  "merge_item (k, Str s) result = Inr (AList.update k (MStr s) result)"
| "merge_item (k, v) result =
     (case map_of result k of
        None \<Rightarrow> Inr (AList.update k (MList [v]) result)
      | Some (MList vs) \<Rightarrow> Inr (AList.update k (MList (vs @ [v])) result)
      | Some (MStr s) \<Rightarrow> Inl AttributeError)"

fun efold :: "('a \<Rightarrow> 's \<Rightarrow> 'e + 's) \<Rightarrow> 'a list \<Rightarrow> 's \<Rightarrow> 'e + 's" where
  "efold f [] s = Inr s"
| "efold f (x # xs) s = (case f x s of Inl e \<Rightarrow> Inl e | Inr s' \<Rightarrow> efold f xs s')"

definition merge_group :: "gscore \<Rightarrow> (string \<times> merged) list \<Rightarrow> 'v error + (string \<times> merged) list" where
  "merge_group group_global_score result =
     (case group_global_score of
        GDict d \<Rightarrow> efold merge_item d result
      | GFloat f \<Rightarrow>
          if isnan f then Inr result
          else Inl (AssertionError ''group global score should be either a dict or np.nan''))"

definition average_merged :: "string \<times> merged \<Rightarrow> 'v error + string \<times> sval" where
  "average_merged kv =
     (case kv of
        (k, MStr s) \<Rightarrow> Inr (k, Str s)
      | (k, MList vs) \<Rightarrow> ebind (nan_mean vs) (\<lambda>f. Inr (k, Num f)))"

text \<open>\<open>groups_global_scores[group_name][score_name]\<close>\<close>

definition group_score_by_name :: "gscore \<Rightarrow> string \<Rightarrow> 'v error + sval" where
  "group_score_by_name gs score_name =
     (case gs of
        GFloat f \<Rightarrow> Inl TypeError
      | GDict d \<Rightarrow>
          (case map_of d score_name of
             None \<Rightarrow> Inl (KeyError score_name)
           | Some v \<Rightarrow> Inr v))"

definition average_groups_global_scores ::
  "'v metric \<Rightarrow> 'v inst list \<Rightarrow> string option \<Rightarrow> 'v error + gscore" where
  "average_groups_global_scores m instances score_name =
     ebind (score_groups_globally m instances
              (case score_name of None \<Rightarrow> None | Some n \<Rightarrow> Some [n])) (\<lambda>groups_global_scores.
       if \<not> length groups_global_scores > 0
       then Inl (AssertionError ''Where have all the groups gone?'')
       else if length groups_global_scores = 1
       then Inr (snd (hd groups_global_scores))
       else
         (case score_name of
            Some n \<Rightarrow>
              ebind (emap (\<lambda>(group_name, gs). group_score_by_name gs n) groups_global_scores)
                (\<lambda>vs. ebind (nan_mean vs) (\<lambda>f. Inr (GFloat f)))
          | None \<Rightarrow>
              ebind (efold merge_group (map snd groups_global_scores) []) (\<lambda>result.
              ebind (emap average_merged result) (\<lambda>averaged. Inr (GDict averaged)))))"

section \<open>Confidence intervals\<close>

definition can_compute_confidence_intervals :: "'v metric \<Rightarrow> nat \<Rightarrow> bool" where
  "can_compute_confidence_intervals m num_predictions =
     (case n_resamples m of
        None \<Rightarrow> False
      | Some n \<Rightarrow> n > 1 \<and> num_predictions > 1)"

text \<open>
  \<open>_all_instance_scores_equal\<close>: the scores other than \<open>np.nan\<close> are put in a set,
  and the set must have one element.
\<close>

definition all_instance_scores_equal :: "'v inst list \<Rightarrow> string \<Rightarrow> 'v error + bool" where
  "all_instance_scores_equal instances score_name =
     ebind (emap (\<lambda>i. get_instance_score i score_name) instances) (\<lambda>instance_scores.
       let non_nan_instance_scores = filter (\<lambda>s. s \<noteq> Num NaN) instance_scores;
           num_unique_scores = length (remdups non_nan_instance_scores)
       in Inr (num_unique_scores = 1))"

text \<open>An aggregating function seen as the statistic of one resample.\<close>

definition as_statistic ::
  "('v inst list \<Rightarrow> string \<Rightarrow> 'v error + fl) \<Rightarrow> 'v inst list \<Rightarrow> string \<Rightarrow> 'v error + gscore" where
  "as_statistic f instances score_name = ebind (f instances score_name) (\<lambda>x. Inr (GFloat x))"

text \<open>One round of the loop over \<open>score_names\<close> in \<open>score_based_confidence_interval\<close>.\<close>

definition ci_for_score_name ::
  "'v metric \<Rightarrow> 'v inst list \<Rightarrow> ('v inst list \<Rightarrow> string \<Rightarrow> 'v error + gscore) \<Rightarrow> string \<Rightarrow> int
   \<Rightarrow> string \<Rightarrow> scores \<Rightarrow> 'v error + scores" where
  "ci_for_score_name m instances aggregation_func ci_score_prefix n score_name result =
     ebind (all_instance_scores_equal instances score_name) (\<lambda>equal.
       if equal then Inr result
       else
         ebind (bootstrap m instances (\<lambda>resampled_instances.
                  aggregation_func resampled_instances score_name) n (confidence_level m))
           (\<lambda>(low, high).
              let full_score_name = ci_score_prefix @ score_name;
                  result1 = AList.update (full_score_name @ ''_ci_low'') (Num low) result;
                  result2 = AList.update (full_score_name @ ''_ci_high'') (Num high) result1
              in Inr (if score_name = main_score m
                      then AList.update ''score_ci_high'' (Num high)
                             (AList.update ''score_ci_low'' (Num low) result2)
                      else result2)))"

definition score_based_confidence_interval ::
  "'v metric \<Rightarrow> 'v inst list \<Rightarrow> string list
   \<Rightarrow> ('v inst list \<Rightarrow> string \<Rightarrow> 'v error + gscore) option \<Rightarrow> string \<Rightarrow> 'v error + scores" where
  "score_based_confidence_interval m instances names aggregation_func ci_score_prefix =
     (if \<not> can_compute_confidence_intervals m (length instances) then Inr []
      else
        (case n_resamples m of
           None \<Rightarrow> Inr []
         | Some n \<Rightarrow>
             efold (ci_for_score_name m instances
                      (case aggregation_func of
                         None \<Rightarrow> as_statistic average_item_scores
                       | Some f \<Rightarrow> f)
                      ci_score_prefix n)
               names []))"

text \<open>
  The statistic of \<open>compute_global_confidence_intervals\<close> on one resample: the
  \<open>score\<close> of the averaged group scores, NaN when anything raises. A \<open>score\<close> that is
  not a float makes numpy raise once the statistic has returned.
\<close>

definition global_statistic :: "'v metric \<Rightarrow> 'v inst list \<Rightarrow> 'v error + gscore" where
  "global_statistic m insts =
     (case average_groups_global_scores m insts None of
        Inr (GDict to_ret) \<Rightarrow>
          (case map_of to_ret ''score'' of
             None \<Rightarrow> Inr (GFloat NaN)
           | Some (Num f) \<Rightarrow> Inr (GFloat f)
           | Some _ \<Rightarrow> Inl TypeError)
      | _ \<Rightarrow> Inr (GFloat NaN))"

definition resample_population :: "'v list list \<Rightarrow> 'v list \<Rightarrow> tdata list \<Rightarrow> 'v inst list" where
  "resample_population refs predictions tds =
     map (\<lambda>(r, p, t). \<lparr>references = Some r, prediction = Some p, task_data = Some t,
                        score = None\<rparr>)
       (zip refs (zip predictions tds))"

definition compute_global_confidence_intervals ::
  "'v metric \<Rightarrow> 'v list list \<Rightarrow> 'v list \<Rightarrow> tdata list \<Rightarrow> string \<Rightarrow> 'v error + scores" where
  "compute_global_confidence_intervals m refs predictions tds score_name =
     (if can_compute_confidence_intervals m (length predictions) then
        (case n_resamples m of
           None \<Rightarrow> Inr []
         | Some n \<Rightarrow>
             ebind (bootstrap m (resample_population refs predictions tds) (global_statistic m)
                      n (confidence_level m))
               (\<lambda>(low, high).
                  Inr (AList.update (score_name @ ''_ci_high'') (Num high)
                        (AList.update (score_name @ ''_ci_low'') (Num low)
                          (AList.update ''score_ci_high'' (Num high)
                            (AList.update ''score_ci_low'' (Num low) []))))))
      else Inr [])"

section \<open>The shared global score\<close>

text \<open>
  The \<open>global\<close> score dictionaries are objects: an instance holds a reference, the heap
  holds the dictionaries. \<open>next_ref\<close> is the first reference not yet in use.
\<close>

record heap =
  cell :: "nat \<Rightarrow> scores"
  next_ref :: nat

text \<open>\<open>global_score = {}\<close>\<close>

definition new_dict :: "heap \<Rightarrow> nat \<times> heap" where
  "new_dict h = (next_ref h, h\<lparr>cell := (cell h)(next_ref h := []), next_ref := Suc (next_ref h)\<rparr>)"

text \<open>\<open>global_score.update(d)\<close>\<close>

definition heap_update :: "heap \<Rightarrow> nat \<Rightarrow> scores \<Rightarrow> heap" where
  "heap_update h a d = h\<lparr>cell := (cell h)(a := dict_update (cell h a) d)\<rparr>"

text \<open>
  What the three \<open>process\<close> loops do with an instance's score: an instance without one
  gets a score pointing to the current \<open>global_score\<close>; otherwise \<open>global_score\<close> becomes
  the instance's own global dictionary. The result is the instance and \<open>global_score\<close>.
\<close>

definition attach_score :: "'v inst \<Rightarrow> nat \<Rightarrow> 'v error + ('v inst \<times> score_cell \<times> nat)" where
  "attach_score i global_score =
     (case score i of
        None \<Rightarrow>
          (let c = \<lparr>global_ref = Some global_score, instance_scores = []\<rparr>
           in Inr (i\<lparr>score := Some c\<rparr>, c, global_score))
      | Some c \<Rightarrow>
          (case global_ref c of
             None \<Rightarrow> Inl (KeyError ''global'')
           | Some a \<Rightarrow> Inr (i, c, a)))"

text \<open>\<open>instance["score"]["instance"].update(d)\<close>\<close>

definition update_instance_score :: "'v inst \<Rightarrow> score_cell \<Rightarrow> scores \<Rightarrow> 'v inst" where
  "update_instance_score i c d =
     i\<lparr>score := Some (c\<lparr>instance_scores := dict_update (instance_scores c) d\<rparr>)\<rparr>"

section \<open>GlobalMetric.process\<close>

text \<open>
  The preview score of one instance: \<open>_compute\<close> on the singleton, and when that is
  disabled, raises, or returns nothing, the dictionary of \<open>no_score_value\<close>.
\<close>

definition singleton_score :: "'v metric \<Rightarrow> 'v list \<Rightarrow> 'v \<Rightarrow> tdata \<Rightarrow> scores" where
  "singleton_score m instance_references instance_prediction instance_task_data =
     (let attempt =
            (if process_single_instances m then
               (case compute_main m [instance_references] [instance_prediction]
                       [instance_task_data] of
                  Inl e \<Rightarrow> (None, NoneV)
                | Inr d \<Rightarrow> (Some d, Num NaN))
             else (None, Num NaN));
          instance_score = fst attempt;
          no_score_value = snd attempt
      in if instance_score = None \<or> instance_score = Some []
         then AList.update (main_score m) no_score_value
                [(''score'', no_score_value), (''score_name'', Str (main_score m))]
         else (case instance_score of Some d \<Rightarrow> d | None \<Rightarrow> []))"

record 'v consumed =
  c_references :: "'v list list"
  c_predictions :: "'v list"
  c_task_data :: "tdata list"
  c_global_score :: nat
  c_instances :: "'v inst list"

fun global_loop :: "'v metric \<Rightarrow> 'v inst list \<Rightarrow> 'v consumed \<Rightarrow> 'v error + 'v consumed" where
  "global_loop m [] st = Inr st"
| "global_loop m (i # stream) st =
     ebind (attach_score i (c_global_score st)) (\<lambda>(i1, c, global_score).
       case references i1 of
         None \<Rightarrow> Inl (KeyError ''references'')
       | Some instance_references \<Rightarrow>
           (case prediction i1 of
              None \<Rightarrow> Inl (KeyError ''prediction'')
            | Some instance_prediction \<Rightarrow>
                (let instance_task_data = (case task_data i1 of None \<Rightarrow> [] | Some t \<Rightarrow> t);
                     instance_score = singleton_score m instance_references
                                        instance_prediction instance_task_data;
                     i2 = update_instance_score i1 c instance_score
                 in global_loop m stream
                      \<lparr>c_references = c_references st @ [instance_references],
                       c_predictions = c_predictions st @ [instance_prediction],
                       c_task_data = c_task_data st @ [instance_task_data],
                       c_global_score = global_score,
                       c_instances = c_instances st @ [i2]\<rparr>)))"

fun eall :: "('a \<Rightarrow> 'e + bool) \<Rightarrow> 'a list \<Rightarrow> 'e + bool" where
  "eall f [] = Inr True"
| "eall f (x # xs) =
     (case f x of Inl e \<Rightarrow> Inl e | Inr b \<Rightarrow> if b then eall f xs else Inr False)"

fun is_float :: "sval \<Rightarrow> bool" where
  "is_float (Num f) = True"
| "is_float (Str s) = False"
| "is_float NoneV = False"

text \<open>The condition under which GlobalMetric samples from the groups' scores.\<close>

definition samples_from_groups_scores ::
  "'v metric \<Rightarrow> (string \<times> gscore) list \<Rightarrow> 'v error + bool" where
  "samples_from_groups_scores m groups_global_scores =
     (case ci_scores m of
        None \<Rightarrow> Inr False
      | Some cs \<Rightarrow>
          (case grouping m of
             None \<Rightarrow> Inr False
           | Some g \<Rightarrow>
               if \<not> ci_samples_from_groups_scores g then Inr False
               else
                 eall (\<lambda>group_score.
                         case group_score of
                           GFloat f \<Rightarrow> if isnan f then Inr True else Inl TypeError
                         | GDict d \<Rightarrow>
                             eall (\<lambda>score_name.
                                     case map_of d score_name of
                                       None \<Rightarrow> Inl (KeyError score_name)
                                     | Some v \<Rightarrow> Inr (is_float v)) cs)
                   (map snd groups_global_scores)))"

text \<open>A group's global score dressed as an instance: \<open>{"score": {"instance": d}}\<close>.\<close>

definition dressed :: "scores \<Rightarrow> 'v inst" where
  "dressed d = \<lparr>references = None, prediction = None, task_data = None,
               score = Some \<lparr>global_ref = None, instance_scores = d\<rparr>\<rparr>"

fun dict_groups :: "(string \<times> gscore) list \<Rightarrow> scores list" where
  "dict_groups [] = []"
| "dict_groups ((group_name, GDict d) # rest) = d # dict_groups rest"
| "dict_groups ((group_name, GFloat f) # rest) = dict_groups rest"

text \<open>
  \<open>GlobalMetric.process\<close>: the loop over the stream (\<open>global_loop\<close>), then
  validation, the global score and its confidence interval (\<open>global_finish\<close>).
  \<open>list(set(self.ci_scores))\<close> is the list without its duplicates, in an order Python
  does not fix. The string under \<open>score_name\<close> names the interval's keys.
\<close>

definition global_finish ::
  "'v metric \<Rightarrow> heap \<Rightarrow> 'v consumed \<Rightarrow> 'v error + ('v inst list \<times> heap)" where
  "global_finish m h1 st =
     ebind (validate_references_and_prediction m (c_references st) (c_predictions st)) (\<lambda>_.
     ebind (average_groups_global_scores m (c_instances st) None) (\<lambda>result.
       case result of
         GFloat f \<Rightarrow> Inl TypeError
       | GDict r \<Rightarrow>
           (let global_score = c_global_score st;
                h2 = heap_update h1 global_score r
            in case map_of (cell h2 global_score) ''score_name'' of
                 None \<Rightarrow> Inl (KeyError ''score_name'')
               | Some NoneV \<Rightarrow> Inl TypeError
               | Some (Num f) \<Rightarrow> Inl TypeError
               | Some (Str score_name) \<Rightarrow>
                   ebind (score_groups_globally m (c_instances st) None)
                     (\<lambda>groups_global_scores.
                   ebind (samples_from_groups_scores m groups_global_scores) (\<lambda>from_groups.
                   ebind (if from_groups then
                            score_based_confidence_interval m
                              (map dressed (dict_groups groups_global_scores))
                              (remdups (case ci_scores m of None \<Rightarrow> [] | Some cs \<Rightarrow> cs))
                              (Some (as_statistic average_item_scores)) ''fixed_group_''
                          else
                            compute_global_confidence_intervals m (c_references st)
                              (c_predictions st) (c_task_data st) score_name)
                     (\<lambda>confidence_interval.
                        Inr (c_instances st,
                             heap_update h2 global_score confidence_interval)))))))"

definition global_start :: "nat \<Rightarrow> 'v consumed" where
  "global_start global_score =
     \<lparr>c_references = [], c_predictions = [], c_task_data = [],
      c_global_score = global_score, c_instances = []\<rparr>"

definition global_process ::
  "'v metric \<Rightarrow> 'v inst list \<Rightarrow> heap \<Rightarrow> 'v error + ('v inst list \<times> heap)" where
  "global_process m stream h0 =
     (case new_dict h0 of (global_score0, h1) \<Rightarrow>
        ebind (global_loop m stream (global_start global_score0)) (global_finish m h1))"

section \<open>InstanceMetric.process\<close>

text \<open>One round of the loop of \<open>compute_instance_scores\<close>.\<close>

definition instance_step ::
  "'v metric \<Rightarrow> 'v inst \<Rightarrow> nat \<Rightarrow> 'v error + ('v inst \<times> nat)" where
  "instance_step m i global_score =
     (let td = (case task_data i of None \<Rightarrow> [] | Some t \<Rightarrow> t)
      in ebind (if reference_field m = ''references'' then
                  (case references i of
                     None \<Rightarrow> Inl (KeyError ''references'')
                   | Some r \<Rightarrow> Inr r)
                else
                  (case map_of td (reference_field m) of
                     None \<Rightarrow> Inl (KeyError (reference_field m))
                   | Some v \<Rightarrow> Inr [from_task_data m v])) (\<lambda>refs.
         ebind (if prediction_field m = ''prediction'' then
                  (case prediction i of
                     None \<Rightarrow> Inl (KeyError ''prediction'')
                   | Some p \<Rightarrow> Inr p)
                else
                  (case map_of td (prediction_field m) of
                     None \<Rightarrow> Inl (KeyError (prediction_field m))
                   | Some v \<Rightarrow> Inr (from_task_data m v))) (\<lambda>pred.
         ebind (validate_prediction m pred) (\<lambda>_.
         ebind (validate_reference m refs) (\<lambda>_.
         ebind (compute_instance m refs pred td) (\<lambda>computed.
           case map_of computed (main_score m) of
             None \<Rightarrow> Inl (KeyError (main_score m))
           | Some v \<Rightarrow>
               (let instance_score =
                      AList.update ''score_name'' (Str (main_score m))
                        (AList.update ''score'' v computed)
                in ebind (attach_score i global_score) (\<lambda>(i1, c, global_score').
                     Inr (update_instance_score i1 c instance_score, global_score')))))))))"

fun instance_loop ::
  "'v metric \<Rightarrow> 'v inst list \<Rightarrow> nat \<Rightarrow> 'v inst list \<Rightarrow> 'v error + ('v inst list \<times> nat)" where
  "instance_loop m [] global_score instances = Inr (instances, global_score)"
| "instance_loop m (i # stream) global_score instances =
     ebind (instance_step m i global_score) (\<lambda>(i', global_score').
       instance_loop m stream global_score' (instances @ [i']))"

definition compute_instance_scores ::
  "'v metric \<Rightarrow> 'v inst list \<Rightarrow> heap \<Rightarrow> 'v error + ('v inst list \<times> nat \<times> heap)" where
  "compute_instance_scores m stream h0 =
     (case new_dict h0 of (global_score0, h1) \<Rightarrow>
        ebind (instance_loop m stream global_score0 []) (\<lambda>(instances, global_score).
          Inr (instances, global_score, h1)))"

text \<open>
  The value \<open>process\<close> stores under \<open>to_score_name\<close>: the score of the one group
  \<open>all\<close>, or the NaN-skipping mean over the groups.
\<close>

definition overall_score ::
  "'v metric \<Rightarrow> (string \<times> gscore) list \<Rightarrow> string \<Rightarrow> 'v error + sval" where
  "overall_score m groups_global_scores score_name =
     (case grouping m of
        None \<Rightarrow>
          (case map_of groups_global_scores ''all'' of
             None \<Rightarrow> Inl (KeyError ''all'')
           | Some gs \<Rightarrow> group_score_by_name gs score_name)
      | Some g \<Rightarrow>
          ebind (emap (\<lambda>(group_name, gs). group_score_by_name gs score_name)
                   groups_global_scores) (\<lambda>vs.
          ebind (nan_mean vs) (\<lambda>f. Inr (Num f))))"

fun index_of :: "'a list \<Rightarrow> 'a \<Rightarrow> nat" where
  "index_of [] y = 0"
| "index_of (x # xs) y = (if x = y then 0 else Suc (index_of xs y))"

definition set_main_score :: "'v metric \<Rightarrow> heap \<Rightarrow> nat \<Rightarrow> 'v error + heap" where
  "set_main_score m h global_score =
     (case score_names m of
        None \<Rightarrow> Inl TypeError
      | Some ns \<Rightarrow>
          if main_score m \<in> set ns then
            (case to_score_names m of
               None \<Rightarrow> Inl TypeError
             | Some tos \<Rightarrow>
                 (let position = index_of ns (main_score m)
                  in if position < length tos then
                       (case map_of (cell h global_score) (tos ! position) of
                          None \<Rightarrow> Inl (KeyError (tos ! position))
                        | Some v \<Rightarrow>
                            Inr (heap_update h global_score
                                   [(''score'', v), (''score_name'', Str (tos ! position))]))
                     else Inl IndexError))
          else Inr h)"

definition instance_confidence_interval ::
  "'v metric \<Rightarrow> 'v inst list \<Rightarrow> (string \<times> gscore) list \<Rightarrow> 'v error + scores" where
  "instance_confidence_interval m instances groups_global_scores =
     (case ci_scores m of
        None \<Rightarrow> Inr []
      | Some cs \<Rightarrow>
          (case grouping m of
             None \<Rightarrow>
               (case aggregating m of
                  None \<Rightarrow> Inl TypeError
                | Some a \<Rightarrow>
                    score_based_confidence_interval m instances (remdups cs)
                      (Some (as_statistic (aggregating_function a))) (prefix m))
           | Some g \<Rightarrow>
               if \<not> ci_samples_from_groups_scores g then
                 score_based_confidence_interval m instances (remdups cs)
                   (Some (\<lambda>insts n. average_groups_global_scores m insts (Some n))) (prefix m)
               else
                 score_based_confidence_interval m
                   (map dressed (dict_groups groups_global_scores)) (remdups cs)
                   (Some (as_statistic average_item_scores)) (prefix m)))"

definition instance_process ::
  "'v metric \<Rightarrow> 'v inst list \<Rightarrow> heap \<Rightarrow> 'v error + ('v inst list \<times> heap)" where
  "instance_process m stream h0 =
     ebind (compute_instance_scores m stream h0) (\<lambda>(instances, global_score, h1).
     ebind (score_groups_globally m instances (score_names m)) (\<lambda>groups_global_scores.
       case score_names m of
         None \<Rightarrow> Inl TypeError
       | Some ns \<Rightarrow>
           (case to_score_names m of
              None \<Rightarrow> Inl TypeError
            | Some tos \<Rightarrow>
                ebind (efold (\<lambda>(score_name, to_score_name) h.
                                ebind (overall_score m groups_global_scores score_name) (\<lambda>v.
                                  Inr (heap_update h global_score [(to_score_name, v)])))
                         (zip ns tos) h1) (\<lambda>h2.
                ebind (set_main_score m h2 global_score) (\<lambda>h3.
                ebind (instance_confidence_interval m instances groups_global_scores)
                  (\<lambda>confidence_interval.
                     Inr (instances, heap_update h3 global_score confidence_interval)))))))"

section \<open>BulkInstanceMetric.process\<close>






section \<open>Notions of the statements\<close>

text \<open>
  An instance the loop of \<open>GlobalMetric.process\<close> can read: it has references and a
  prediction, and its score, when it has one, has a global dictionary.
\<close>

definition readable :: "'v inst \<Rightarrow> bool" where
  "readable i =
     (references i \<noteq> None \<and> prediction i \<noteq> None
      \<and> (case score i of None \<Rightarrow> True | Some c \<Rightarrow> global_ref c \<noteq> None))"

text \<open>\<open>_compute\<close> raises on the singleton of the instance.\<close>

definition singleton_raises :: "'v metric \<Rightarrow> 'v inst \<Rightarrow> bool" where
  "singleton_raises m i =
     (case references i of
        None \<Rightarrow> False
      | Some r \<Rightarrow>
          (case prediction i of
             None \<Rightarrow> False
           | Some p \<Rightarrow>
               isl (compute_main m [r] [p] [case task_data i of None \<Rightarrow> [] | Some t \<Rightarrow> t])))"

text \<open>The entry of an instance's own score dictionary under a key.\<close>

definition preview :: "'v inst \<Rightarrow> string \<Rightarrow> sval option" where
  "preview i k = (case score i of None \<Rightarrow> None | Some c \<Rightarrow> map_of (instance_scores c) k)"

text \<open>The keys a confidence interval is stored under end in one of two suffixes.\<close>

definition ends_with :: "string \<Rightarrow> string \<Rightarrow> bool" where
  "ends_with k suffix = (drop (length k - length suffix) k = suffix)"



section \<open>Concrete inputs\<close>

text \<open>An instance that carries one float under \<open>f1\<close>.\<close>

definition scored :: "fl \<Rightarrow> string inst" where
  "scored f = \<lparr>references = None, prediction = None, task_data = None,
            score = Some \<lparr>global_ref = None, instance_scores = [(''f1'', Num f)]\<rparr>\<rparr>"


text \<open>
  A bootstrap that returns the interval [0, 1] whatever it is given, and the metric
  Accuracy with it: the score is 1 when the prediction is among the references.
\<close>

definition unit_interval ::
  "string inst list \<Rightarrow> (string inst list \<Rightarrow> string error + gscore) \<Rightarrow> int \<Rightarrow> real
   \<Rightarrow> string error + fl \<times> fl" where
  "unit_interval data statistic n level = Inr (Fl 0, Fl 1)"

definition accuracy_compute :: "string list \<Rightarrow> string \<Rightarrow> tdata \<Rightarrow> string error + scores" where
  "accuracy_compute refs pred td =
     (let v = Num (Fl (if pred \<in> set refs then 1 else 0))
      in Inr [(''accuracy'', v), (''score'', v), (''score_name'', Str ''accuracy'')])"

definition accuracy :: "string metric" where
  "accuracy =
     \<lparr>kind = InstanceMetric, main_score = ''accuracy'',
      single_reference_per_prediction = False, has_prediction_type = (\<lambda>x. True),
      n_resamples = Some 1000, confidence_level = 95 / 100,
      ci_scores = Some [''accuracy''], grouping = None, subgroup_filtering = None,
      control_comparison = None, bootstrap = unit_interval,
      process_single_instances = True,
      compute = (\<lambda>refs predictions tds. Inl (ComputeError ''abstract'')),
      reduction_map = [], implemented_reductions = [''mean''],
      compute_bulk = (\<lambda>refs predictions tds. Inl (ComputeError ''abstract'')),
      score_names = Some [''accuracy''], to_score_names = Some [''accuracy''],
      aggregating = Some \<lparr>aggregating_function_name = ''mean'',
                          aggregating_function = average_item_scores\<rparr>,
      prefix = [], reference_field = ''references'', prediction_field = ''prediction'',
      from_task_data = (\<lambda>s. s), compute_instance = accuracy_compute\<rparr>"

text \<open>An instance that carries the floats \<open>a\<close> under \<open>accuracy\<close> and \<open>b\<close> under \<open>f1\<close>.\<close>

definition scored2 :: "fl \<Rightarrow> fl \<Rightarrow> string inst" where
  "scored2 a b = \<lparr>references = None, prediction = None, task_data = None,
                 score = Some \<lparr>global_ref = None,
                               instance_scores = [(''accuracy'', Num a), (''f1'', Num b)]\<rparr>\<rparr>"

text \<open>Grouping by the side-data field \<open>group_id\<close>; instances with and without it.\<close>

definition by_group_id :: grouping_cfg where
  "by_group_id = \<lparr>group_by_field = ''task_data/group_id'', ci_samples_from_groups_scores = False\<rparr>"

definition in_group :: "string \<Rightarrow> fl \<Rightarrow> string inst" where
  "in_group g a = \<lparr>references = None, prediction = None, task_data = Some [(''group_id'', g)],
                  score = Some \<lparr>global_ref = None,
                                instance_scores = [(''accuracy'', Num a)]\<rparr>\<rparr>"

definition in_no_group :: "fl \<Rightarrow> string inst" where
  "in_no_group a = \<lparr>references = None, prediction = None, task_data = Some [(''topic'', ''x'')],
                   score = Some \<lparr>global_ref = None,
                                 instance_scores = [(''accuracy'', Num a)]\<rparr>\<rparr>"

text \<open>
  A global metric whose \<open>compute\<close> raises on fewer than two predictions, as a
  correlation does, and otherwise returns the rate of predictions among their references.
\<close>

definition agreement_compute ::
  "string list list \<Rightarrow> string list \<Rightarrow> tdata list \<Rightarrow> string error + scores" where
  "agreement_compute refs predictions tds =
     (if length predictions < 2 then Inl (ComputeError ''fewer than two predictions'')
      else Inr [(''agreement'',
                 Num (Fl (real (length (filter (\<lambda>(r, p). p \<in> set r) (zip refs predictions)))
                          / real (length predictions))))])"

definition agreement :: "string metric" where
  "agreement = accuracy\<lparr>kind := GlobalMetric, main_score := ''agreement'',
                         compute := agreement_compute, ci_scores := None,
                         n_resamples := None\<rparr>"

text \<open>
  Instances as a stream brings them: not yet scored, or scored by an earlier metric, with
  a reference to that metric's global score.
\<close>

definition unscored :: "string \<Rightarrow> string list \<Rightarrow> string inst" where
  "unscored p rs = \<lparr>references = Some rs, prediction = Some p, task_data = None, score = None\<rparr>"

definition scored_before :: "string \<Rightarrow> string list \<Rightarrow> nat \<Rightarrow> string inst" where
  "scored_before p rs a =
     \<lparr>references = Some rs, prediction = Some p, task_data = None,
      score = Some \<lparr>global_ref = Some a, instance_scores = [(''bleu'', Num (Fl 1))]\<rparr>\<rparr>"

definition empty_heap :: heap where
  "empty_heap = \<lparr>cell = (\<lambda>a. []), next_ref = 0\<rparr>"

text \<open>A heap whose one dictionary, at reference 0, is the global score of an earlier metric.\<close>

definition heap_after_bleu :: heap where
  "heap_after_bleu = \<lparr>cell = (\<lambda>a. if a = 0 then [(''bleu'', Num (Fl 1))] else []), next_ref = 1\<rparr>"

text \<open>
  What a run yields, seen from outside: for each instance the reference under
  \<open>score["global"]\<close> with the dictionary it points to, and the instance's own scores.
\<close>

definition yielded_globals ::
  "'v error + ('v inst list \<times> heap) \<Rightarrow> 'v error + (nat \<times> scores) option list" where
  "yielded_globals r =
     (case r of
        Inl e \<Rightarrow> Inl e
      | Inr (instances, h) \<Rightarrow>
          Inr (map (\<lambda>i. case score i of
                           None \<Rightarrow> None
                         | Some c \<Rightarrow>
                             (case global_ref c of
                                None \<Rightarrow> None
                              | Some a \<Rightarrow> Some (a, cell h a))) instances))"

definition yielded_instance_scores ::
  "'v error + ('v inst list \<times> heap) \<Rightarrow> 'v error + scores list" where
  "yielded_instance_scores r =
     (case r of
        Inl e \<Rightarrow> Inl e
      | Inr (instances, h) \<Rightarrow>
          Inr (map (\<lambda>i. case score i of None \<Rightarrow> [] | Some c \<Rightarrow> instance_scores c) instances))"





section \<open>The NaN-skipping mean\<close>

lemma sum_replace_nan: "sum_list (map replace_nan arr) = sum_list (finite_vals arr)"
  unfolding finite_vals_def by (induction arr) (auto elim: isnan.elims)

lemma isnan_iff: "isnan v \<longleftrightarrow> v = NaN"
  by (cases v) auto

lemma count_non_nan: "length (filter (\<lambda>v. \<not> isnan v) arr) = length (finite_vals arr)"
  unfolding finite_vals_def by (simp add: isnan_iff)

lemma np_nanmean_mean:
  "np_nanmean arr = (if finite_vals arr = [] then NaN else Fl (arith_mean (finite_vals arr)))"
  unfolding np_nanmean_def Let_def arith_mean_def
  by (simp add: sum_replace_nan count_non_nan)

lemma emap_carried:
  "\<forall>i \<in> set instances. carries_float i n \<Longrightarrow>
   emap (\<lambda>i. get_instance_score i n) instances = Inr (map Num (carried instances n))"
  by (induction instances)
     (auto simp: carried_def carries_float_def get_instance_score_def
           split: option.splits sval.splits)

lemma those_Num: "those (map (as_float \<circ> Num) fs) = Some fs"
  by (induction fs) auto

lemma length_finite_vals:
  "length (finite_vals xs) + length (filter isnan xs) = length xs"
  unfolding finite_vals_def by (induction xs) (auto simp: isnan_iff)


text \<open>
  C3. On instances that carry a float under the score name, \<open>average_item_scores\<close>
  returns the arithmetic mean of the scores that are not NaN (NaN when there is none). In
  particular, with exactly one NaN among at least two scores, the others in [0, 1], the
  result is the sum of the others over their number: the NaN is left out, not counted
  as 0.
\<close>

theorem average_item_scores_is_mean_of_non_nan:
  assumes "\<forall>i \<in> set instances. carries_float i score_name"
  shows "average_item_scores instances score_name =
           Inr (if finite_vals (carried instances score_name) = [] then NaN
                else Fl (arith_mean (finite_vals (carried instances score_name))))
         \<and> (length (filter isnan (carried instances score_name)) = 1
              \<and> 2 \<le> length instances
              \<and> (\<forall>r \<in> set (finite_vals (carried instances score_name)). 0 \<le> r \<and> r \<le> 1)
            \<longrightarrow> average_item_scores instances score_name =
                  Inr (Fl (sum_list (finite_vals (carried instances score_name))
                           / real (length instances - 1))))"
proof -
  let ?xs = "carried instances score_name"
  have main: "average_item_scores instances score_name =
           Inr (if finite_vals ?xs = [] then NaN else Fl (arith_mean (finite_vals ?xs)))"
    using assms
    by (simp add: average_item_scores_def ebind_def emap_carried nan_mean_def those_Num
        np_nanmean_mean)
  have len: "length ?xs = length instances"
    by (simp add: carried_def)
  have special: "average_item_scores instances score_name =
                  Inr (Fl (sum_list (finite_vals ?xs) / real (length instances - 1)))"
    if one: "length (filter isnan ?xs) = 1" and two: "2 \<le> length instances"
  proof -
    from length_finite_vals [of ?xs] one len
    have n: "length (finite_vals ?xs) = length instances - 1" by simp
    with two have "finite_vals ?xs \<noteq> []" by auto
    with main n show ?thesis by (simp add: arith_mean_def)
  qed
  from main special show ?thesis by blast
qed

theorem average_item_scores_is_mean_of_non_nan_witness:
  "average_item_scores [scored (Fl 1), scored NaN, scored (Fl (1/2))] ''f1'' = Inr (Fl (3/4))"
  using average_item_scores_is_mean_of_non_nan
          [of "[scored (Fl 1), scored NaN, scored (Fl (1/2))]" "''f1''"]
  by (simp add: carries_float_def carried_def scored_def finite_vals_def arith_mean_def)


section \<open>The percentage drop\<close>

text \<open>
  C6. \<open>performance_drop_rate\<close> returns 0.5 on control [1, 1, 1, 1] and comparison
  [0.5, 0.5, 0.5, 0.5]; with the mean of the control scores 0 it returns 0 when the mean
  of the comparison scores is 0 too, and NaN when that one is not 0. The means are those
  of the scores that are not NaN, as the function takes them.
\<close>

theorem performance_drop_rate_cases:
  "(performance_drop_rate [Fl 1, Fl 1, Fl 1, Fl 1] [Fl (1/2), Fl (1/2), Fl (1/2), Fl (1/2)]
      :: 'v error + fl) = Inr (Fl (1/2))
   \<and> (finite_vals control \<noteq> [] \<and> finite_vals comparison \<noteq> []
        \<and> arith_mean (finite_vals control) = 0 \<and> arith_mean (finite_vals comparison) = 0
      \<longrightarrow> (performance_drop_rate control comparison :: 'v error + fl) = Inr (Fl 0))
   \<and> (finite_vals control \<noteq> [] \<and> finite_vals comparison \<noteq> []
        \<and> arith_mean (finite_vals control) = 0 \<and> arith_mean (finite_vals comparison) \<noteq> 0
      \<longrightarrow> (performance_drop_rate control comparison :: 'v error + fl) = Inr NaN)"
proof -
  have a: "(performance_drop_rate [Fl 1, Fl 1, Fl 1, Fl 1]
             [Fl (1/2), Fl (1/2), Fl (1/2), Fl (1/2)] :: 'v error + fl) = Inr (Fl (1/2))"
    by (simp add: performance_drop_rate_def mean_def ebind_def)
  have filt: "filter (\<lambda>s. \<not> isnan s) xs = [] \<longleftrightarrow> finite_vals xs = []" for xs
    by (simp add: finite_vals_def isnan_iff)
  have m: "(mean (filter (\<lambda>s. \<not> isnan s) xs) :: 'v error + fl)
             = Inr (Fl (arith_mean (finite_vals xs)))"
    if "finite_vals xs \<noteq> []" for xs
    using that unfolding mean_def finite_vals_def arith_mean_def
    by (auto simp: isnan_iff list_ex_iff)
  have b: "(performance_drop_rate control comparison :: 'v error + fl) =
             Inr (if arith_mean (finite_vals comparison) = 0 then Fl 0 else NaN)"
    if "finite_vals control \<noteq> []" "finite_vals comparison \<noteq> []"
       "arith_mean (finite_vals control) = 0"
    using that
    by (simp add: performance_drop_rate_def Let_def filt m ebind_def)
  from a b show ?thesis by simp
qed

theorem performance_drop_rate_cases_witness:
  "(performance_drop_rate [Fl 0, NaN] [Fl 0] :: string error + fl) = Inr (Fl 0)
   \<and> (performance_drop_rate [Fl 0, NaN] [Fl 1, Fl 0] :: string error + fl) = Inr NaN"
  using performance_drop_rate_cases [of "[Fl 0, NaN]" "[Fl 0]", where ?'v = string]
        performance_drop_rate_cases [of "[Fl 0, NaN]" "[Fl 1, Fl 0]", where ?'v = string]
  by (simp add: finite_vals_def arith_mean_def)

section \<open>When no interval is computed\<close>

text \<open>
  C4. \<open>score_based_confidence_interval\<close> returns the empty dictionary, so no
  confidence-interval key at all, whenever \<open>n_resamples\<close> is None, \<open>n_resamples\<close> is at
  most 1, or there is at most one instance.
\<close>

theorem no_confidence_interval_keys:
  assumes "n_resamples m = None \<or> (\<exists>n. n_resamples m = Some n \<and> n \<le> 1)
           \<or> length instances \<le> 1"
  shows "score_based_confidence_interval m instances names aggregation_func ci_score_prefix
           = Inr []"
  using assms
  by (auto simp: score_based_confidence_interval_def can_compute_confidence_intervals_def
           split: option.splits)

theorem no_confidence_interval_keys_witness:
  "score_based_confidence_interval (accuracy\<lparr>n_resamples := None\<rparr>)
      [scored2 (Fl 1) (Fl 0), scored2 (Fl 0) (Fl 1)] [''accuracy''] None [] = Inr []
   \<and> score_based_confidence_interval (accuracy\<lparr>n_resamples := Some 1\<rparr>)
      [scored2 (Fl 1) (Fl 0), scored2 (Fl 0) (Fl 1)] [''accuracy''] None [] = Inr []
   \<and> score_based_confidence_interval accuracy
      [scored2 (Fl 1) (Fl 0)] [''accuracy''] None [] = Inr []"
  using no_confidence_interval_keys
          [of "accuracy\<lparr>n_resamples := None\<rparr>"
              "[scored2 (Fl 1) (Fl 0), scored2 (Fl 0) (Fl 1)]" "[''accuracy'']" None "[]"]
        no_confidence_interval_keys
          [of "accuracy\<lparr>n_resamples := Some 1\<rparr>"
              "[scored2 (Fl 1) (Fl 0), scored2 (Fl 0) (Fl 1)]" "[''accuracy'']" None "[]"]
        no_confidence_interval_keys
          [of accuracy "[scored2 (Fl 1) (Fl 0)]" "[''accuracy'']" None "[]"]
  by (simp add: accuracy_def)

section \<open>Scores that do not vary\<close>
















section \<open>A missing grouping field\<close>

text \<open>
  C7, at a failing input. With grouping configured and the field missing from the first
  instance, \<open>score_groups_globally\<close> raises UnboundLocalError: the message of its
  ValueError reads the variable \<open>group_name\<close>, which no lookup has bound yet. Missing
  from a later instance, it raises the ValueError, and the message names as subfield the
  group of the instance before (\<open>g1\<close>), not the configured field. The sibling check of
  \<open>subgroup_filtering\<close> names the configured column.
\<close>

theorem grouping_field_missing:
  "score_groups_globally (accuracy\<lparr>grouping := Some by_group_id\<rparr>)
      [in_no_group (Fl 1)] (Some [''accuracy''])
     = Inl (UnboundLocalError ''group_name'')
   \<and> score_groups_globally (accuracy\<lparr>grouping := Some by_group_id\<rparr>)
      [in_group ''g1'' (Fl 1), in_no_group (Fl 0)] (Some [''accuracy''])
     = Inl (ValueError_grouping (in_no_group (Fl 0)) ''g1'')
   \<and> score_groups_globally
      (accuracy\<lparr>subgroup_filtering :=
                   Some \<lparr>subgroup_column = ''task_data/group_id'', subgroup_types = [''g1'']\<rparr>\<rparr>)
      [in_group ''g1'' (Fl 1), in_no_group (Fl 0)] (Some [''accuracy''])
     = Inl (ValueError_subgroup_filtering (in_no_group (Fl 0)) ''task_data/group_id'')"
  by (simp add: score_groups_globally_def ebind_def accuracy_def by_group_id_def dict_get_def
        in_group_def in_no_group_def)

section \<open>The global score of a mixed stream\<close>

text \<open>
  C8, at a failing input: a stream whose first instance has no score yet and whose second
  was scored by an earlier metric, whose global score is the dictionary at reference 0.
  The first instance is given the fresh dictionary (reference 1), then \<open>global_score\<close>
  is rebound to the second instance's dictionary, and the results are written there
  alone: the two yielded instances hold different dictionaries, and the first one's stays
  empty. So it is for GlobalMetric and for InstanceMetric.
\<close>

theorem mixed_stream_globals_differ:
  "yielded_globals (global_process agreement
         [unscored ''a'' [''a''], scored_before ''b'' [''c''] 0] heap_after_bleu)
     = Inr [Some (1, []),
            Some (0, [(''bleu'', Num (Fl 1)), (''agreement'', Num (Fl (1 / 2))),
                      (''score'', Num (Fl (1 / 2))), (''score_name'', Str ''agreement'')])]
   \<and> yielded_globals (instance_process accuracy
         [unscored ''a'' [''a''], scored_before ''b'' [''c''] 0] heap_after_bleu)
     = Inr [Some (1, []),
            Some (0, [(''bleu'', Num (Fl 1)), (''accuracy'', Num (Fl (1 / 2))),
                      (''score'', Num (Fl (1 / 2))), (''score_name'', Str ''accuracy''),
                      (''accuracy_ci_low'', Num (Fl 0)), (''accuracy_ci_high'', Num (Fl 1)),
                      (''score_ci_low'', Num (Fl 0)), (''score_ci_high'', Num (Fl 1))])]"
  by code_simp

section \<open>A singleton on which compute raises\<close>

lemma map_of_dict_update:
  "distinct (map fst other) \<Longrightarrow>
   map_of (dict_update d other) k =
     (case map_of other k of Some v \<Rightarrow> Some v | None \<Rightarrow> map_of d k)"
proof (induction other arbitrary: d)
  case Nil
  then show ?case by (simp add: dict_update_def)
next
  case (Cons kv other)
  obtain k' v' where kv: "kv = (k', v')" by (cases kv)
  have step: "dict_update d (kv # other) = dict_update (AList.update k' v' d) other"
    by (simp add: dict_update_def kv)
  from Cons.prems kv have d: "distinct (map fst other)" and n: "k' \<notin> fst ` set other" by auto
  from n have none: "map_of other k' = None" by (simp add: map_of_eq_None_iff)
  show ?case
    unfolding step Cons.IH [OF d]
    using none by (auto simp: kv update_conv' split: option.splits)
qed

lemma fallback_score:
  "singleton_raises m i \<Longrightarrow> process_single_instances m \<Longrightarrow>
   references i = Some r \<Longrightarrow> prediction i = Some p \<Longrightarrow>
   singleton_score m r p (case task_data i of None \<Rightarrow> [] | Some t \<Rightarrow> t) =
     AList.update (main_score m) NoneV [(''score'', NoneV), (''score_name'', Str (main_score m))]"
  by (auto simp: singleton_raises_def singleton_score_def isl_def)

lemma preview_updated:
  assumes "d = AList.update ms NoneV [(''score'', NoneV), (''score_name'', Str ms)]"
  shows "preview (update_instance_score i c d) ''score'' = Some NoneV
         \<and> preview (update_instance_score i c d) ms = Some NoneV"
proof -
  have dist: "distinct (map fst d)" unfolding assms by (rule distinct_update) simp
  have a: "map_of d ''score'' = Some NoneV" unfolding assms by (simp add: update_conv')
  have b: "map_of d ms = Some NoneV" unfolding assms by (simp add: update_conv')
  show ?thesis
    by (simp add: preview_def update_instance_score_def map_of_dict_update [OF dist] a b)
qed

lemma global_loop_total:
  assumes "list_all readable stream"
  shows "\<exists>st new. global_loop m stream st0 = Inr st
           \<and> c_instances st = c_instances st0 @ new \<and> length new = length stream
           \<and> (\<forall>k < length stream.
                 process_single_instances m \<and> singleton_raises m (stream ! k) \<longrightarrow>
                 preview (new ! k) ''score'' = Some NoneV
                 \<and> preview (new ! k) (main_score m) = Some NoneV)"
  using assms
proof (induction stream arbitrary: st0)
  case Nil
  then show ?case by simp
next
  case (Cons i stream)
  from Cons.prems have ri: "readable i" and rest: "list_all readable stream" by auto
  from ri obtain r p where r: "references i = Some r" and p: "prediction i = Some p"
    by (auto simp: readable_def)
  from ri obtain i1 c g where att: "attach_score i (c_global_score st0) = Inr (i1, c, g)"
    and r1: "references i1 = Some r" and p1: "prediction i1 = Some p"
    and t1: "task_data i1 = task_data i"
    using r p by (auto simp: readable_def attach_score_def Let_def split: option.splits)
  define td where "td = (case task_data i of None \<Rightarrow> [] | Some t \<Rightarrow> t)"
  define i2 where "i2 = update_instance_score i1 c (singleton_score m r p td)"
  define st1 where "st1 = \<lparr>c_references = c_references st0 @ [r],
                       c_predictions = c_predictions st0 @ [p],
                       c_task_data = c_task_data st0 @ [td],
                       c_global_score = g,
                       c_instances = c_instances st0 @ [i2]\<rparr>"
  have step: "global_loop m (i # stream) st0 = global_loop m stream st1"
    by (simp add: att ebind_def r1 p1 t1 Let_def st1_def i2_def td_def)
  from Cons.IH [OF rest, of st1] obtain st new where
    loop: "global_loop m stream st1 = Inr st"
    and inst: "c_instances st = c_instances st1 @ new" and len: "length new = length stream"
    and prev: "\<forall>k < length stream.
                 process_single_instances m \<and> singleton_raises m (stream ! k) \<longrightarrow>
                 preview (new ! k) ''score'' = Some NoneV
                 \<and> preview (new ! k) (main_score m) = Some NoneV"
    by blast
  have head: "preview i2 ''score'' = Some NoneV \<and> preview i2 (main_score m) = Some NoneV"
    if "process_single_instances m" "singleton_raises m i"
    unfolding i2_def td_def
    by (rule preview_updated [OF fallback_score [OF that(2) that(1) r p]])
  have a: "\<forall>k < length (i # stream).
                 process_single_instances m \<and> singleton_raises m ((i # stream) ! k) \<longrightarrow>
                 preview ((i2 # new) ! k) ''score'' = Some NoneV
                 \<and> preview ((i2 # new) ! k) (main_score m) = Some NoneV"
  proof (intro allI impI)
    fix k assume k: "k < length (i # stream)"
      and h: "process_single_instances m \<and> singleton_raises m ((i # stream) ! k)"
    show "preview ((i2 # new) ! k) ''score'' = Some NoneV
                 \<and> preview ((i2 # new) ! k) (main_score m) = Some NoneV"
    proof (cases k)
      case 0
      with h head show ?thesis by simp
    next
      case (Suc j)
      with k h prev show ?thesis by simp
    qed
  qed
  have b: "c_instances st = c_instances st0 @ (i2 # new)"
    using inst by (simp add: st1_def)
  have c: "length (i2 # new) = length (i # stream)" using len by simp
  from step loop have l: "global_loop m (i # stream) st0 = Inr st" by simp
  show ?case
  proof (intro exI conjI)
    show "global_loop m (i # stream) st0 = Inr st" by (rule l)
    show "c_instances st = c_instances st0 @ (i2 # new)" by (rule b)
    show "length (i2 # new) = length (i # stream)" by (rule c)
    show "\<forall>k < length (i # stream).
                 process_single_instances m \<and> singleton_raises m ((i # stream) ! k) \<longrightarrow>
                 preview ((i2 # new) ! k) ''score'' = Some NoneV
                 \<and> preview ((i2 # new) ! k) (main_score m) = Some NoneV" by (rule a)
  qed
qed

text \<open>
  C2, as the claim states it, at a concrete input: \<open>compute\<close> raises on each singleton,
  the run goes on, and the preview scores are None, not NaN.
\<close>

theorem failed_preview_is_not_nan:
  "process_single_instances agreement
   \<and> singleton_raises agreement (unscored ''a'' [''a''])
   \<and> yielded_instance_scores (global_process agreement
         [unscored ''a'' [''a''], unscored ''b'' [''c'']] empty_heap)
       = Inr [[(''score'', NoneV), (''score_name'', Str ''agreement''), (''agreement'', NoneV)],
              [(''score'', NoneV), (''score_name'', Str ''agreement''), (''agreement'', NoneV)]]
   \<and> NoneV \<noteq> Num NaN"
  by code_simp

text \<open>
  C2, amended. With \<open>process_single_instances\<close> enabled, on a stream of readable
  instances the loop of \<open>GlobalMetric.process\<close> never fails, whatever \<open>compute\<close> does
  on the singletons; the run is then the validation and global computation on the whole
  stream; and each instance on whose singleton \<open>_compute\<close> raises has None under
  \<open>score\<close> and under the main score.
\<close>

theorem failed_preview_is_none_and_run_goes_on:
  assumes single: "process_single_instances m" and ok: "list_all readable stream"
  shows "\<exists>st. global_loop m stream (global_start (fst (new_dict h0))) = Inr st
           \<and> global_process m stream h0 = global_finish m (snd (new_dict h0)) st
           \<and> length (c_instances st) = length stream
           \<and> (\<forall>k < length stream. singleton_raises m (stream ! k) \<longrightarrow>
                 preview (c_instances st ! k) ''score'' = Some NoneV
                 \<and> preview (c_instances st ! k) (main_score m) = Some NoneV)"
proof -
  from global_loop_total [OF ok, of m "global_start (fst (new_dict h0))"]
  obtain st new where loop: "global_loop m stream (global_start (fst (new_dict h0))) = Inr st"
    and inst: "c_instances st = c_instances (global_start (fst (new_dict h0)) :: 'a consumed) @ new"
    and len: "length new = length stream"
    and prev: "\<forall>k < length stream.
                 process_single_instances m \<and> singleton_raises m (stream ! k) \<longrightarrow>
                 preview (new ! k) ''score'' = Some NoneV
                 \<and> preview (new ! k) (main_score m) = Some NoneV"
    by blast
  from inst have new: "c_instances st = new" by (simp add: global_start_def)
  have proc: "global_process m stream h0 = global_finish m (snd (new_dict h0)) st"
    using loop by (cases "new_dict h0") (simp add: global_process_def ebind_def)
  show ?thesis
  proof (intro exI conjI)
    show "global_loop m stream (global_start (fst (new_dict h0))) = Inr st" by (rule loop)
    show "global_process m stream h0 = global_finish m (snd (new_dict h0)) st" by (rule proc)
    show "length (c_instances st) = length stream" using new len by simp
    show "\<forall>k < length stream. singleton_raises m (stream ! k) \<longrightarrow>
                 preview (c_instances st ! k) ''score'' = Some NoneV
                 \<and> preview (c_instances st ! k) (main_score m) = Some NoneV"
      using prev single new by simp
  qed
qed

theorem failed_preview_is_none_and_run_goes_on_witness:
  "singleton_raises agreement ([unscored ''a'' [''a''], unscored ''b'' [''c'']] ! 0)
   \<and> yielded_globals (global_process agreement
         [unscored ''a'' [''a''], unscored ''b'' [''c'']] empty_heap)
       = Inr [Some (0, [(''agreement'', Num (Fl (1 / 2))), (''score'', Num (Fl (1 / 2))),
                        (''score_name'', Str ''agreement'')]),
              Some (0, [(''agreement'', Num (Fl (1 / 2))), (''score'', Num (Fl (1 / 2))),
                        (''score_name'', Str ''agreement'')])]
   \<and> (\<exists>st. global_loop agreement [unscored ''a'' [''a''], unscored ''b'' [''c'']]
               (global_start (fst (new_dict empty_heap))) = Inr st
           \<and> global_process agreement [unscored ''a'' [''a''], unscored ''b'' [''c'']] empty_heap
               = global_finish agreement (snd (new_dict empty_heap)) st
           \<and> length (c_instances st) = length [unscored ''a'' [''a''], unscored ''b'' [''c'']]
           \<and> (\<forall>k < length [unscored ''a'' [''a''], unscored ''b'' [''c'']].
                 singleton_raises agreement ([unscored ''a'' [''a''], unscored ''b'' [''c'']] ! k)
                 \<longrightarrow> preview (c_instances st ! k) ''score'' = Some NoneV
                   \<and> preview (c_instances st ! k) (main_score agreement) = Some NoneV))"
proof -
  have s: "process_single_instances agreement" by (simp add: agreement_def accuracy_def)
  have r: "list_all readable [unscored ''a'' [''a''], unscored ''b'' [''c'']]"
    by (simp add: readable_def unscored_def)
  have x: "singleton_raises agreement ([unscored ''a'' [''a''], unscored ''b'' [''c'']] ! 0)"
    by code_simp
  have y: "yielded_globals (global_process agreement
         [unscored ''a'' [''a''], unscored ''b'' [''c'']] empty_heap)
       = Inr [Some (0, [(''agreement'', Num (Fl (1 / 2))), (''score'', Num (Fl (1 / 2))),
                        (''score_name'', Str ''agreement'')]),
              Some (0, [(''agreement'', Num (Fl (1 / 2))), (''score'', Num (Fl (1 / 2))),
                        (''score_name'', Str ''agreement'')])]"
    by code_simp
  from failed_preview_is_none_and_run_goes_on [OF s r, of empty_heap] x y
  show ?thesis by (intro conjI)
qed

section \<open>The mean reduction of a bulk metric\<close>





lemma emap_all:
  "emap f xs = Inr ys \<Longrightarrow> ys = map (\<lambda>x. case f x of Inr y \<Rightarrow> y) xs \<and> (\<forall>x \<in> set xs. isl (f x) = False)"
  by (induction xs arbitrary: ys) (auto split: sum.splits)








lemma ends_with_append: "ends_with (p @ s) s"
  by (simp add: ends_with_def)











section \<open>One group for the whole stream\<close>

lemma group_by_same:
  assumes "\<forall>i \<in> set instances. dict_get i field = Inr gname"
  shows "group_by field instances prev [(gname, xs)] = Inr [(gname, xs @ instances)]"
  using assms
proof (induction instances arbitrary: prev xs)
  case Nil
  then show ?case by simp
next
  case (Cons i instances)
  from Cons.prems have i: "dict_get i field = Inr gname"
    and rest: "\<forall>i \<in> set instances. dict_get i field = Inr gname" by simp_all
  from Cons.IH [OF rest, of "Some gname" "xs @ [i]"] i show ?case by simp
qed

lemma group_by_one_group:
  assumes same: "\<forall>i \<in> set instances. dict_get i field = Inr gname" and ne: "instances \<noteq> []"
  shows "group_by field instances None [] = Inr [(gname, instances)]"
proof -
  from ne obtain i rest where ir: "instances = i # rest" by (cases instances) auto
  from same ir have i: "dict_get i field = Inr gname"
    and r: "\<forall>i \<in> set rest. dict_get i field = Inr gname" by simp_all
  from group_by_same [OF r, of "Some gname" "[i]"] i ir show ?thesis by simp
qed

lemma score_group_by_name_grouping:
  "score_group_by_name (m\<lparr>grouping := x\<rparr>) grp n = score_group_by_name m grp n"
  by (cases grp) (simp_all add: score_group_by_name_def)

lemma score_group_names_grouping:
  "score_group_names (m\<lparr>grouping := x\<rparr>) grp ns d = score_group_names m grp ns d"
  by (induction ns arbitrary: d) (simp_all add: score_group_by_name_grouping)

lemma update_values: "snd ` set (AList.update k v al) \<subseteq> insert v (snd ` set al)"
  by (induction al) auto

lemma score_group_names_floats:
  assumes "score_group_names m grp ns d0 = Inr d" and "\<forall>v \<in> snd ` set d0. is_float v"
  shows "\<forall>v \<in> snd ` set d. is_float v"
  using assms
proof (induction ns arbitrary: d0)
  case Nil
  then show ?case by simp
next
  case (Cons n ns)
  from Cons.prems(1) obtain x where
    rest: "score_group_names m grp ns (AList.update n (Num x) d0) = Inr d"
    by (cases "score_group_by_name m grp n") (simp_all add: ebind_def)
  have "\<forall>v \<in> snd ` set (AList.update n (Num x) d0). is_float v"
  proof
    fix v assume "v \<in> snd ` set (AList.update n (Num x) d0)"
    with update_values [of n "Num x" d0] have "v = Num x \<or> v \<in> snd ` set d0" by auto
    with Cons.prems(2) show "is_float v" by auto
  qed
  from Cons.IH [OF rest this] show ?case .
qed

lemma nan_mean_single: "nan_mean [Num x] = Inr x"
  by (cases x) (simp_all add: nan_mean_def np_nanmean_def)

lemma one_group_both:
  assumes im: "kind m = InstanceMetric" and ng: "grouping m = None"
  shows "\<exists>X. score_groups_globally m instances names
                = ebind X (\<lambda>d. Inr [(''all'', GDict d)])
            \<and> (instances \<noteq> []
                 \<and> (\<forall>i \<in> set instances. dict_get i (group_by_field g) = Inr gname)
               \<longrightarrow> score_groups_globally (m\<lparr>grouping := Some g\<rparr>) instances names
                     = ebind X (\<lambda>d. Inr [(gname, GDict d)]))
            \<and> (\<forall>d. X = Inr d \<longrightarrow> (\<forall>v \<in> snd ` set d. is_float v))"
proof -
  define X where "X =
     ebind (case subgroup_filtering m of
              None \<Rightarrow> Inr instances
            | Some cfg \<Rightarrow> filter_group cfg instances) (\<lambda>filtered.
     ebind (case control_comparison m of
              None \<Rightarrow> Inr (Plain filtered)
            | Some cc \<Rightarrow>
                ebind (split_group cc filtered) (\<lambda>(c, k). Inr (Split c k))) (\<lambda>grp.
       case names of
         None \<Rightarrow> Inl TypeError
       | Some ns \<Rightarrow> score_group_names m grp ns []))"
  have pipe: "ebind (case subgroup_filtering m of
              None \<Rightarrow> Inr [(n, instances)]
            | Some cfg \<Rightarrow>
                emap (\<lambda>(group_name, g).
                        ebind (filter_group cfg g) (\<lambda>filtered_group.
                          Inr (group_name, filtered_group)))
                  [(n, instances)]) (\<lambda>filtered_instances.
     ebind (case control_comparison m of
              None \<Rightarrow> Inr (map (\<lambda>(group_name, g). (group_name, Plain g)) filtered_instances)
            | Some cc \<Rightarrow>
                emap (\<lambda>(group_name, g).
                        ebind (split_group cc g) (\<lambda>(control_group, comparison_group).
                          Inr (group_name, Split control_group comparison_group)))
                  filtered_instances) (\<lambda>groups.
       score_groups m names groups []))
      = ebind X (\<lambda>d. Inr [(n, GDict d)])" for n
    unfolding X_def using im
    by (simp add: ebind_def split: option.splits sum.splits prod.splits)
  have a: "score_groups_globally m instances names = ebind X (\<lambda>d. Inr [(''all'', GDict d)])"
    using pipe [of "''all''"] by (simp add: score_groups_globally_def ng ebind_def)
  have sg: "score_groups (m\<lparr>grouping := Some g\<rparr>) names groups acc
              = score_groups m names groups acc" for groups acc
    by (induction groups arbitrary: acc)
       (auto simp: im score_group_names_grouping split: option.splits)
  have b: "score_groups_globally (m\<lparr>grouping := Some g\<rparr>) instances names
                = ebind X (\<lambda>d. Inr [(gname, GDict d)])"
    if ne: "instances \<noteq> []"
      and same: "\<forall>i \<in> set instances. dict_get i (group_by_field g) = Inr gname"
    using pipe [of gname] group_by_one_group [OF same ne]
    by (simp add: score_groups_globally_def sg ebind_def)
  have c: "\<forall>v \<in> snd ` set d. is_float v" if "X = Inr d" for d
  proof -
    from that obtain grp ns where "score_group_names m grp ns [] = Inr d"
      unfolding X_def
      by (auto simp: ebind_def split: option.splits sum.splits prod.splits)
    from score_group_names_floats [OF this] show ?thesis by simp
  qed
  show ?thesis
  proof (intro exI conjI impI allI)
    show "score_groups_globally m instances names = ebind X (\<lambda>d. Inr [(''all'', GDict d)])"
      by (rule a)
    show "score_groups_globally (m\<lparr>grouping := Some g\<rparr>) instances names
                = ebind X (\<lambda>d. Inr [(gname, GDict d)])"
      if "instances \<noteq> []
          \<and> (\<forall>i \<in> set instances. dict_get i (group_by_field g) = Inr gname)"
      using that b by blast
    show "\<forall>v \<in> snd ` set d. is_float v" if "X = Inr d" for d
      using that by (rule c)
  qed
qed

lemma average_one_group:
  assumes "score_groups_globally m instances (Some [n]) = Inr [(name, s)]"
  shows "average_groups_global_scores m instances (Some n) = Inr s"
  using assms by (simp add: average_groups_global_scores_def ebind_def)

lemma overall_score_one_group:
  assumes fl: "\<forall>v \<in> snd ` set d. is_float v" and ng: "grouping m = None"
  shows "overall_score (m\<lparr>grouping := Some g\<rparr>) [(gname, GDict d)] n
           = overall_score m [(''all'', GDict d)] n"
proof (cases "map_of d n")
  case None
  then show ?thesis
    by (simp add: overall_score_def ng group_score_by_name_def ebind_def)
next
  case (Some v)
  then have "v \<in> snd ` set d" by (force dest: map_of_SomeD)
  with fl have "is_float v" by blast
  then obtain x where "v = Num x" by (cases v) auto
  with Some show ?thesis
    by (simp add: overall_score_def ng group_score_by_name_def ebind_def nan_mean_single)
qed

lemma ungrouped_example:
  "score_groups_globally accuracy [in_group ''g1'' (Fl 1), in_group ''g1'' (Fl 0)]
      (Some [''accuracy''])
     = Inr [(''all'', GDict [(''accuracy'', Num (Fl (1 / 2)))])]
   \<and> overall_score accuracy [(''all'', GDict [(''accuracy'', Num (Fl (1 / 2)))])] ''accuracy''
     = Inr (Num (Fl (1 / 2)))"
  by code_simp

text \<open>
  C1. For an InstanceMetric without grouping, on every stream, \<open>score_groups_globally\<close>
  returns the mapping of the one group \<open>all\<close>, and \<open>average_groups_global_scores\<close>
  returns that group's score unchanged. The same metric with a grouping under which all
  instances of a non-empty stream fall into one group returns the same score (or raises
  the same error), under that group's name; the averaged group scores are equal, and so
  is the value \<open>process\<close> stores as the global score for a score name: the score of
  \<open>all\<close> in one case, the NaN-skipping mean over the one group in the other.
\<close>

theorem ungrouped_equals_single_group:
  assumes im: "kind m = InstanceMetric" and ng: "grouping m = None"
  shows "(\<forall>ggs. score_groups_globally m instances names = Inr ggs
            \<longrightarrow> (\<exists>s. ggs = [(''all'', s)]))
       \<and> (\<forall>s. score_groups_globally m instances (Some [n]) = Inr [(''all'', s)]
            \<longrightarrow> average_groups_global_scores m instances (Some n) = Inr s)
       \<and> (instances \<noteq> []
            \<and> (\<forall>i \<in> set instances. dict_get i (group_by_field g) = Inr gname)
          \<longrightarrow> score_groups_globally (m\<lparr>grouping := Some g\<rparr>) instances names
                = (case score_groups_globally m instances names of
                     Inl e \<Rightarrow> Inl e
                   | Inr ggs \<Rightarrow> Inr (map (\<lambda>(group_name, s). (gname, s)) ggs))
            \<and> average_groups_global_scores (m\<lparr>grouping := Some g\<rparr>) instances (Some n)
                = average_groups_global_scores m instances (Some n)
            \<and> (\<forall>ggs. score_groups_globally m instances names = Inr ggs
                 \<longrightarrow> overall_score (m\<lparr>grouping := Some g\<rparr>)
                       (map (\<lambda>(group_name, s). (gname, s)) ggs) n
                     = overall_score m ggs n))"
proof -
  let ?one = "instances \<noteq> []
              \<and> (\<forall>i \<in> set instances. dict_get i (group_by_field g) = Inr gname)"
  from one_group_both [OF im ng, of instances names g gname] obtain X where
    a: "score_groups_globally m instances names = ebind X (\<lambda>d. Inr [(''all'', GDict d)])"
    and b: "?one \<longrightarrow> score_groups_globally (m\<lparr>grouping := Some g\<rparr>) instances names
              = ebind X (\<lambda>d. Inr [(gname, GDict d)])"
    and c: "\<forall>d. X = Inr d \<longrightarrow> (\<forall>v \<in> snd ` set d. is_float v)"
    by blast
  from one_group_both [OF im ng, of instances "Some [n]" g gname] obtain Y where
    a': "score_groups_globally m instances (Some [n])
           = ebind Y (\<lambda>d. Inr [(''all'', GDict d)])"
    and b': "?one \<longrightarrow> score_groups_globally (m\<lparr>grouping := Some g\<rparr>) instances (Some [n])
              = ebind Y (\<lambda>d. Inr [(gname, GDict d)])"
    by blast
  have p1: "\<forall>ggs. score_groups_globally m instances names = Inr ggs
            \<longrightarrow> (\<exists>s. ggs = [(''all'', s)])"
    unfolding a by (cases X) (auto simp: ebind_def)
  have p3: "\<forall>s. score_groups_globally m instances (Some [n]) = Inr [(''all'', s)]
            \<longrightarrow> average_groups_global_scores m instances (Some n) = Inr s"
    using average_one_group by blast
  have p2: "score_groups_globally (m\<lparr>grouping := Some g\<rparr>) instances names
           = (case score_groups_globally m instances names of
                Inl e \<Rightarrow> Inl e
              | Inr ggs \<Rightarrow> Inr (map (\<lambda>(group_name, s). (gname, s)) ggs))" if ?one
    using b that unfolding a by (cases X) (simp_all add: ebind_def)
  have p4: "average_groups_global_scores (m\<lparr>grouping := Some g\<rparr>) instances (Some n)
           = average_groups_global_scores m instances (Some n)" if ?one
    using b' that
    by (cases Y) (simp_all add: average_groups_global_scores_def a' ebind_def)
  have p5: "\<forall>ggs. score_groups_globally m instances names = Inr ggs
            \<longrightarrow> overall_score (m\<lparr>grouping := Some g\<rparr>)
                  (map (\<lambda>(group_name, s). (gname, s)) ggs) n
                = overall_score m ggs n"
  proof (intro allI impI)
    fix ggs assume r: "score_groups_globally m instances names = Inr ggs"
    with a obtain d where X: "X = Inr d" and ggs: "ggs = [(''all'', GDict d)]"
      by (cases X) (auto simp: ebind_def)
    from c X have "\<forall>v \<in> snd ` set d. is_float v" by blast
    from overall_score_one_group [OF this ng] ggs
    show "overall_score (m\<lparr>grouping := Some g\<rparr>)
                  (map (\<lambda>(group_name, s). (gname, s)) ggs) n
                = overall_score m ggs n" by simp
  qed
  from p1 p3 p2 p4 p5 show ?thesis by (intro conjI impI)
qed

theorem ungrouped_equals_single_group_witness:
  "score_groups_globally accuracy [in_group ''g1'' (Fl 1), in_group ''g1'' (Fl 0)]
      (Some [''accuracy''])
     = Inr [(''all'', GDict [(''accuracy'', Num (Fl (1 / 2)))])]
   \<and> score_groups_globally (accuracy\<lparr>grouping := Some by_group_id\<rparr>)
      [in_group ''g1'' (Fl 1), in_group ''g1'' (Fl 0)] (Some [''accuracy''])
     = Inr [(''g1'', GDict [(''accuracy'', Num (Fl (1 / 2)))])]
   \<and> average_groups_global_scores accuracy
      [in_group ''g1'' (Fl 1), in_group ''g1'' (Fl 0)] (Some ''accuracy'')
     = Inr (GDict [(''accuracy'', Num (Fl (1 / 2)))])
   \<and> average_groups_global_scores (accuracy\<lparr>grouping := Some by_group_id\<rparr>)
      [in_group ''g1'' (Fl 1), in_group ''g1'' (Fl 0)] (Some ''accuracy'')
     = Inr (GDict [(''accuracy'', Num (Fl (1 / 2)))])
   \<and> overall_score (accuracy\<lparr>grouping := Some by_group_id\<rparr>)
      [(''g1'', GDict [(''accuracy'', Num (Fl (1 / 2)))])] ''accuracy''
     = Inr (Num (Fl (1 / 2)))"
proof -
  have im: "kind accuracy = InstanceMetric" and ng: "grouping accuracy = None"
    by (simp_all add: accuracy_def)
  have one: "[in_group ''g1'' (Fl 1), in_group ''g1'' (Fl 0)] \<noteq> []
             \<and> (\<forall>i \<in> set [in_group ''g1'' (Fl 1), in_group ''g1'' (Fl 0)].
                   dict_get i (group_by_field by_group_id) = Inr ''g1'')"
    by (simp add: dict_get_def in_group_def by_group_id_def)
  from ungrouped_equals_single_group
         [OF im ng, of "[in_group ''g1'' (Fl 1), in_group ''g1'' (Fl 0)]"
            "Some [''accuracy'']" "''accuracy''" by_group_id "''g1''"]
  have "score_groups_globally (accuracy\<lparr>grouping := Some by_group_id\<rparr>)
          [in_group ''g1'' (Fl 1), in_group ''g1'' (Fl 0)] (Some [''accuracy''])
        = (case score_groups_globally accuracy
                  [in_group ''g1'' (Fl 1), in_group ''g1'' (Fl 0)] (Some [''accuracy'']) of
             Inl e \<Rightarrow> Inl e
           | Inr ggs \<Rightarrow> Inr (map (\<lambda>(group_name, s). (''g1'', s)) ggs))
      \<and> average_groups_global_scores (accuracy\<lparr>grouping := Some by_group_id\<rparr>)
          [in_group ''g1'' (Fl 1), in_group ''g1'' (Fl 0)] (Some ''accuracy'')
        = average_groups_global_scores accuracy
          [in_group ''g1'' (Fl 1), in_group ''g1'' (Fl 0)] (Some ''accuracy'')
      \<and> (\<forall>ggs. score_groups_globally accuracy
                  [in_group ''g1'' (Fl 1), in_group ''g1'' (Fl 0)] (Some [''accuracy''])
                 = Inr ggs
            \<longrightarrow> overall_score (accuracy\<lparr>grouping := Some by_group_id\<rparr>)
                  (map (\<lambda>(group_name, s). (''g1'', s)) ggs) ''accuracy''
                = overall_score accuracy ggs ''accuracy'')"
    and "\<forall>s. score_groups_globally accuracy
                  [in_group ''g1'' (Fl 1), in_group ''g1'' (Fl 0)] (Some [''accuracy''])
                = Inr [(''all'', s)]
            \<longrightarrow> average_groups_global_scores accuracy
                  [in_group ''g1'' (Fl 1), in_group ''g1'' (Fl 0)] (Some ''accuracy'') = Inr s"
    using one by blast+
  with ungrouped_example show ?thesis by simp
qed

end
